theory Spec2Isabelle
  imports Complex_Main
begin

section \<open>Python values and failures\<close>

text \<open>
  Every \<open>raise\<close> and every failing \<open>assert\<close> of the source is a value \<open>Inl e\<close> of the
  result type \<open>error + 'a\<close>. The constructors name the Python exception.
\<close>

datatype error = TypeError | AssertionError | IndexError | KeyError | ValueError

definition ebind :: "error + 'a \<Rightarrow> ('a \<Rightarrow> error + 'b) \<Rightarrow> error + 'b" where
  "ebind m f = (case m of Inl e \<Rightarrow> Inl e | Inr x \<Rightarrow> f x)"

text \<open>
  \<open>xs[i]\<close> in Python: indices from \<open>-len(xs)\<close> to \<open>len(xs) - 1\<close> are accepted, the negative
  ones counting from the end of the list; every other index raises \<open>IndexError\<close>.
  \<open>py_index\<close> resolves an index to the list position it denotes.
\<close>

definition py_index :: "'a list \<Rightarrow> int \<Rightarrow> error + nat" where
  "py_index xs i =
     (if 0 \<le> i \<and> i < int (length xs) then Inr (nat i)
      else if - int (length xs) \<le> i \<and> i < 0 then Inr (nat (int (length xs) + i))
      else Inl IndexError)"

text \<open>\<open>range(a, b)\<close>: the integers from \<open>a\<close> up to \<open>b - 1\<close>, empty when \<open>b \<le> a\<close>.\<close>

definition range_py :: "int \<Rightarrow> int \<Rightarrow> int list" where
  "range_py a b = [a..b - 1]"


section \<open>Data model (store.py)\<close>

record TimeRange =
  t_start :: int
  t_end :: int

record Container =
  ident :: int
  csize :: int
  cvalue :: int
  arrival :: TimeRange
  delivery :: TimeRange

type_synonym Position = int

text \<open>A location is the pair (height, column), as \<open>Store.add\<close> records it.\<close>

type_synonym Location = "int \<times> int"

text \<open>
  The attributes of class \<open>Store\<close>: \<open>_storage\<close> (one list per column, bottom first),
  \<open>_width\<close>, \<open>_cash\<close>, \<open>_containers\<close> and \<open>_map\<close> (identifier to location).
\<close>

record Store =
  storage :: "Container list list"
  width :: int
  cash :: int
  containers :: "Container list"
  map_id :: "int \<rightharpoonup> Location"

definition Store_init :: "int \<Rightarrow> Store" where
  "Store_init w =
     \<lparr>storage = replicate (nat w) [], width = w, cash = 0, containers = [], map_id = Map.empty\<rparr>"

definition Store_cash :: "Store \<Rightarrow> int" where
  "Store_cash s = cash s"

definition Store_valid_position :: "Store \<Rightarrow> Position \<Rightarrow> bool" where
  "Store_valid_position s p = (p < width s)"

definition Store_height_column :: "Store \<Rightarrow> Position \<Rightarrow> error + int" where
  "Store_height_column s p =
     (if \<not> Store_valid_position s p then Inl AssertionError
      else ebind (py_index (storage s) p) (\<lambda>j. Inr (int (length (storage s ! j)))))"

definition Store_add_cash :: "Store \<Rightarrow> int \<Rightarrow> Store" where
  "Store_add_cash s amount = s\<lparr>cash := cash s + amount\<rparr>"

definition Store_location :: "Store \<Rightarrow> Container \<Rightarrow> Location option" where
  "Store_location s c = map_id s (ident c)"

text \<open>The loop of \<open>can_add\<close> over the columns of the footprint.\<close>

fun can_add_loop :: "Store \<Rightarrow> int \<Rightarrow> int list \<Rightarrow> error + bool" where
  "can_add_loop s l [] = Inr True"
| "can_add_loop s l (i # ks) =
     ebind (Store_height_column s i) (\<lambda>h. if h \<noteq> l then Inr False else can_add_loop s l ks)"

definition Store_can_add :: "Store \<Rightarrow> Container \<Rightarrow> Position \<Rightarrow> error + bool" where
  "Store_can_add s c p =
     (if \<not> Store_valid_position s p then Inl AssertionError
      else ebind (Store_height_column s p) (\<lambda>l. can_add_loop s l (range_py p (p + csize c))))"

text \<open>
  \<open>can_remove\<close> reads \<open>loc[0]\<close> before it tests \<open>loc is not None\<close>: on an absent container
  the subscript of \<open>None\<close> raises \<open>TypeError\<close>. Only the column \<open>loc[1]\<close>, the leftmost one
  of the footprint, is compared with the recorded height.
\<close>

definition Store_can_remove :: "Store \<Rightarrow> Container \<Rightarrow> error + bool" where
  "Store_can_remove s c =
     (case Store_location s c of
        None \<Rightarrow> Inl TypeError
      | Some loc \<Rightarrow>
          ebind (Store_height_column s (snd loc)) (\<lambda>h. Inr (fst loc + 1 = h)))"

text \<open>The loop of \<open>add\<close>: \<open>self._storage[i].append(c)\<close> for each column of the footprint.\<close>

fun append_loop :: "Container list list \<Rightarrow> Container \<Rightarrow> int list \<Rightarrow> error + Container list list" where
  "append_loop st c [] = Inr st"
| "append_loop st c (i # ks) =
     ebind (py_index st i) (\<lambda>j. append_loop (st[j := st ! j @ [c]]) c ks)"

definition Store_add :: "Store \<Rightarrow> Container \<Rightarrow> Position \<Rightarrow> error + Store" where
  "Store_add s c p =
     ebind (Store_can_add s c p) (\<lambda>ok.
       if \<not> ok then Inl AssertionError
       else ebind (Store_height_column s p) (\<lambda>h.
            ebind (append_loop (storage s) c (range_py p (p + csize c))) (\<lambda>st.
              Inr (s\<lparr>map_id := (map_id s)(ident c \<mapsto> (h, p)),
                      containers := containers s @ [c],
                      storage := st\<rparr>))))"

text \<open>The loop of \<open>remove\<close>: \<open>del self._storage[i][loc[0]]\<close> for each column of the footprint.\<close>

fun del_loop :: "Container list list \<Rightarrow> int \<Rightarrow> int list \<Rightarrow> error + Container list list" where
  "del_loop st h [] = Inr st"
| "del_loop st h (i # ks) =
     ebind (py_index st i) (\<lambda>j.
     ebind (py_index (st ! j) h) (\<lambda>k.
       del_loop (st[j := take k (st ! j) @ drop (Suc k) (st ! j)]) h ks))"

text \<open>
  \<open>remove\<close> asserts \<open>c.identifier in self._map and self.can_remove(c)\<close>; the conjunction
  short-circuits. \<open>self._containers.remove(c)\<close> deletes the first equal element and raises
  \<open>ValueError\<close> when there is none.
\<close>

definition Store_remove :: "Store \<Rightarrow> Container \<Rightarrow> error + Store" where
  "Store_remove s c =
     (if map_id s (ident c) = None then Inl AssertionError
      else ebind (Store_can_remove s c) (\<lambda>ok.
        if \<not> ok then Inl AssertionError
        else (case Store_location s c of
                None \<Rightarrow> Inl TypeError
              | Some loc \<Rightarrow>
                  if c \<notin> set (containers s) then Inl ValueError
                  else ebind (del_loop (storage s) (fst loc)
                                (range_py (snd loc) (snd loc + csize c))) (\<lambda>st.
                         Inr (s\<lparr>map_id := (map_id s)(ident c := None),
                                 containers := remove1 c (containers s),
                                 storage := st\<rparr>)))))"

text \<open>\<open>can_move\<close>: both tests are made on the current yard; \<open>and\<close> short-circuits.\<close>

definition Store_can_move :: "Store \<Rightarrow> Container \<Rightarrow> Position \<Rightarrow> error + bool" where
  "Store_can_move s c p =
     ebind (Store_can_remove s c) (\<lambda>r. if \<not> r then Inr False else Store_can_add s c p)"

text \<open>
  \<open>move\<close>: when \<open>can_move\<close> holds, \<open>remove\<close> then \<open>add\<close>; the last assignment
  \<open>self._map[c.identifier] = self.location(c)\<close> stores the entry it has just read.
  When \<open>can_move\<close> is false nothing happens.
\<close>

definition Store_move :: "Store \<Rightarrow> Container \<Rightarrow> Position \<Rightarrow> error + Store" where
  "Store_move s c p =
     ebind (Store_can_move s c p) (\<lambda>ok.
       if ok then
         ebind (Store_remove s c) (\<lambda>s1.
         ebind (Store_add s1 c p) (\<lambda>s2.
           Inr (s2\<lparr>map_id := (map_id s2)(ident c := Store_location s2 c)\<rparr>)))
       else Inr s)"




section \<open>Event log (class Logger)\<close>

text \<open>
  One record per line of the log file; the first component is the time stamp. The
  constructor of \<open>Logger\<close> writes the \<open>START\<close> line with time 0, the name and the width.
\<close>

datatype event =
    START int string int
  | ADD int int Position
  | REMOVE int int
  | MOVE int int Position
  | CASH int int

definition Logger_init :: "string \<Rightarrow> int \<Rightarrow> event list" where
  "Logger_init name w = [START 0 name w]"

definition Logger_add :: "event list \<Rightarrow> int \<Rightarrow> Container \<Rightarrow> Position \<Rightarrow> event list" where
  "Logger_add lg t c p = lg @ [ADD t (ident c) p]"

definition Logger_remove :: "event list \<Rightarrow> int \<Rightarrow> Container \<Rightarrow> event list" where
  "Logger_remove lg t c = lg @ [REMOVE t (ident c)]"

definition Logger_move :: "event list \<Rightarrow> int \<Rightarrow> Container \<Rightarrow> Position \<Rightarrow> event list" where
  "Logger_move lg t c p = lg @ [MOVE t (ident c) p]"

definition Logger_cash :: "event list \<Rightarrow> int \<Rightarrow> int \<Rightarrow> event list" where
  "Logger_cash lg t amount = lg @ [CASH t amount]"

section \<open>The expert strategy (expert.py)\<close>

record Strategy =
  store :: Store
  logger :: "event list"
  time :: int

definition Strategy_init :: "int \<Rightarrow> Strategy" where
  "Strategy_init w = \<lparr>store = Store_init w, logger = Logger_init ''my_strategy'' w, time = 0\<rparr>"

definition expired_container :: "Strategy \<Rightarrow> Container \<Rightarrow> bool" where
  "expired_container s c = (time s \<ge> t_end (delivery c))"

definition valid_container :: "Strategy \<Rightarrow> Container \<Rightarrow> bool" where
  "valid_container s c = (time s \<ge> t_start (delivery c) \<and> \<not> expired_container s c)"

definition Strategy_valid_position :: "Strategy \<Rightarrow> Position \<Rightarrow> bool" where
  "Strategy_valid_position s p = (p < width (store s))"

definition stack_position :: "int \<Rightarrow> int \<Rightarrow> error + Position" where
  "stack_position n sz =
     (if \<not> (n \<le> 2 \<and> n \<ge> 1) then Inl AssertionError
      else if n = 1 then Inr (sz * (sz - 1))
      else Inr (sz ^ 2))"

definition update_time :: "Strategy \<Rightarrow> Strategy" where
  "update_time s = s\<lparr>time := time s + 1\<rparr>"






definition Strategy_height_column :: "Strategy \<Rightarrow> Position \<Rightarrow> error + int" where
  "Strategy_height_column s p =
     (if \<not> Strategy_valid_position s p then Inl AssertionError
      else ebind (py_index (storage (store s)) p) (\<lambda>j. Inr (int (length (storage (store s) ! j)))))"

text \<open>
  \<open>Strategy.cash\<close> is \<open>return self._store.cash\<close>, without call parentheses: the value of
  the expression is the method \<open>Store.cash\<close> bound to the store, not the integer that a
  call of that method returns. The two kinds of Python object are kept apart.
\<close>

datatype py_object = Int_object int | Bound_method_Store_cash Store

definition Strategy_cash :: "Strategy \<Rightarrow> py_object" where
  "Strategy_cash s = Bound_method_Store_cash (store s)"

definition add_container :: "Strategy \<Rightarrow> Container \<Rightarrow> Position \<Rightarrow> error + Strategy" where
  "add_container s c p =
     ebind (Store_can_add (store s) c p) (\<lambda>ok.
       if \<not> ok then Inl AssertionError
       else ebind (Store_add (store s) c p) (\<lambda>st.
              Inr (update_time (s\<lparr>store := st, logger := Logger_add (logger s) (time s) c p\<rparr>))))"









text \<open>
  \<open>dig_pile\<close>: \<open>while depth > 0 and not self._store.empty(p)\<close>; the body takes the top of
  column \<open>p\<close>, evaluates it against its adjacent stack and decrements \<open>depth\<close>.
\<close>

lemma ebind_cong [fundef_cong]:
  "m = m' \<Longrightarrow> (\<And>x. m' = Inr x \<Longrightarrow> f x = f' x) \<Longrightarrow> ebind m f = ebind m' f'"
  by (cases m') (simp_all add: ebind_def)







definition least_full_pile :: "Strategy \<Rightarrow> Container \<Rightarrow> error + Position" where
  "least_full_pile s c =
     ebind (stack_position 1 (csize c)) (\<lambda>p1.
     ebind (Strategy_height_column s p1) (\<lambda>h1.
     ebind (stack_position 2 (csize c)) (\<lambda>p2.
     ebind (Strategy_height_column s p2) (\<lambda>h2.
       if h1 > h2 then stack_position 2 (csize c) else stack_position 1 (csize c)))))"



definition by_value :: "Container \<Rightarrow> int" where
  "by_value c = cvalue c"

text \<open>
  \<open>sort_by_cost\<close> calls \<open>sorted(sell, key=self.by_value)\<close> as a statement: \<open>sorted\<close> builds a
  new list (in ascending order) and leaves \<open>sell\<close> as it is; the new list is dropped.
  The method returns \<open>sell + remove\<close>.
\<close>

definition sort_by_cost :: "Strategy \<Rightarrow> Container list \<Rightarrow> Container list" where
  "sort_by_cost s container_list =
     (let sell = filter (valid_container s) container_list;
          remove = filter (\<lambda>x. \<not> valid_container s x) container_list;
          dropped = sort_key by_value sell
      in sell @ remove)"






section \<open>Basic facts\<close>

lemma ebind_Inl [simp]: "ebind (Inl e) f = Inl e"
  by (simp add: ebind_def)

lemma ebind_Inr [simp]: "ebind (Inr x) f = f x"
  by (simp add: ebind_def)

lemma ebind_eq_Inr: "ebind m f = Inr y \<longleftrightarrow> (\<exists>x. m = Inr x \<and> f x = Inr y)"
  by (cases m) simp_all

section \<open>The remaining time decreases in the exploration loop\<close>







lemma range_py_empty [simp]: "b \<le> a \<Longrightarrow> range_py a b = []"
  by (simp add: range_py_def)





section \<open>The method exec and the driver\<close>




text \<open>
  The intake step of \<open>exec\<close>: \<open>pos_1 = self.least_full_pile(c)\<close>, then the container is
  added when \<open>can_add(c, pos_1) and not expired_container(c) and c.delivery.end > self._time\<close>.
\<close>

definition intake :: "Strategy \<Rightarrow> Container \<Rightarrow> error + Strategy" where
  "intake s c =
     ebind (least_full_pile s c) (\<lambda>pos_1.
     ebind (Store_can_add (store s) c pos_1) (\<lambda>a.
       if a \<and> \<not> expired_container s c \<and> t_end (delivery c) > time s
       then add_container s c pos_1
       else Inr s))"




section \<open>The verifier (check_and_show)\<close>








section \<open>Notions used in the proofs about runs\<close>

text \<open>
  \<open>stored\<close> is the set of the containers a store refers to, in its list of containers or
  in a column. \<open>replays cl s\<close> says that the log of the strategy \<open>s\<close> begins with the
  \<open>START\<close> line, has no \<open>CASH\<close> line, and that the loop of the verifier, run on the rest
  of the log with the containers \<open>cl\<close>, rebuilds the store of \<open>s\<close>, ending at a time that
  is not after the clock; and that the store only refers to containers of \<open>cl\<close>.
\<close>

definition in_columns :: "Container list list \<Rightarrow> Container set" where
  "in_columns st = (\<Union>col\<in>set st. set col)"

definition stored :: "Store \<Rightarrow> Container set" where
  "stored st = set (containers st) \<union> in_columns (storage st)"



section \<open>Example containers and yards\<close>

text \<open>The constructors of the two dataclasses, with positional arguments.\<close>

definition TimeRange_init :: "int \<Rightarrow> int \<Rightarrow> TimeRange" where
  "TimeRange_init a b = \<lparr>t_start = a, t_end = b\<rparr>"

definition Container_init :: "int \<Rightarrow> int \<Rightarrow> int \<Rightarrow> TimeRange \<Rightarrow> TimeRange \<Rightarrow> Container" where
  "Container_init i n v a d = \<lparr>ident = i, csize = n, cvalue = v, arrival = a, delivery = d\<rparr>"

definition wide_box :: Container where
  "wide_box = Container_init 1 2 0 (TimeRange_init 0 0) (TimeRange_init 0 0)"

definition small_box :: Container where
  "small_box = Container_init 2 1 0 (TimeRange_init 0 0) (TimeRange_init 0 0)"

definition top_box :: Container where
  "top_box = Container_init 3 1 0 (TimeRange_init 0 0) (TimeRange_init 0 0)"

text \<open>Width 2: the wide box on columns 0 and 1, then the small box on column 1.\<close>

definition yard2_wide :: Store where
  "yard2_wide = \<lparr>storage = [[wide_box], [wide_box]], width = 2, cash = 0,
     containers = [wide_box], map_id = [1 \<mapsto> (0, 0)]\<rparr>"

definition yard2_covered :: Store where
  "yard2_covered = \<lparr>storage = [[wide_box], [wide_box, small_box]], width = 2, cash = 0,
     containers = [wide_box, small_box], map_id = [1 \<mapsto> (0, 0), 2 \<mapsto> (1, 1)]\<rparr>"

text \<open>Width 3: the wide box on columns 0 and 1; removed again; with the small box on column 2.\<close>

definition yard3_wide :: Store where
  "yard3_wide = \<lparr>storage = [[wide_box], [wide_box], []], width = 3, cash = 0,
     containers = [wide_box], map_id = [1 \<mapsto> (0, 0)]\<rparr>"

definition yard3_cleared :: Store where
  "yard3_cleared = \<lparr>storage = [[], [], []], width = 3, cash = 0,
     containers = [], map_id = [1 \<mapsto> (0, 0)](1 := None)\<rparr>"

definition yard3_blocked :: Store where
  "yard3_blocked = \<lparr>storage = [[wide_box], [wide_box], [small_box]], width = 3, cash = 0,
     containers = [wide_box, small_box], map_id = [1 \<mapsto> (0, 0), 2 \<mapsto> (0, 2)]\<rparr>"




text \<open>Two containers that are both deliverable at time 0, the second worth more.\<close>

definition cheap_box :: Container where
  "cheap_box = Container_init 4 1 1 (TimeRange_init 0 10) (TimeRange_init 0 10)"

definition dear_box :: Container where
  "dear_box = Container_init 5 1 2 (TimeRange_init 0 10) (TimeRange_init 0 10)"

text \<open>
  A container whose arrival window \<open>[0, 0)\<close> is closed from the start and whose delivery
  window is \<open>[0, 10)\<close>, and the strategy of width 2 after its intake at time 0.
\<close>

definition late_box :: Container where
  "late_box = Container_init 6 1 5 (TimeRange_init 0 0) (TimeRange_init 0 10)"

definition placed_late :: Strategy where
  "placed_late = \<lparr>store = \<lparr>storage = [[late_box], []], width = 2, cash = 0,
       containers = [late_box], map_id = [6 \<mapsto> (0, 0)]\<rparr>,
     logger = [START 0 ''my_strategy'' 2, ADD 0 6 0], time = 1\<rparr>"














lemmas example_defs = TimeRange_init_def Container_init_def wide_box_def small_box_def
  top_box_def cheap_box_def dear_box_def

lemmas strategy_defs = Strategy_init_def Logger_init_def Logger_add_def Logger_remove_def
  Logger_move_def expired_container_def valid_container_def Strategy_valid_position_def
  stack_position_def update_time_def Strategy_height_column_def add_container_def
  least_full_pile_def intake_def




lemmas store_defs = Store_init_def Store_valid_position_def Store_height_column_def
  Store_location_def Store_can_add_def Store_can_remove_def Store_add_def Store_remove_def
  Store_can_move_def Store_move_def py_index_def range_py_def upto_rec1 eval_nat_numeral

section \<open>Removal\<close>

text \<open>
  C1 (\<open>can_remove\<close>). The claim: \<open>can_remove(c)\<close> is true iff \<open>c\<close> is present and topmost in
  every column it spans; it is false, without failing, on an absent container and false
  when another container sits above \<open>c\<close> in one of its columns.
  The code does otherwise in both cases. On the empty yard of width 1, \<open>can_remove\<close> of a
  container that was never added raises \<open>TypeError\<close>. On the yard of width 2 where the
  wide box lies on columns 0 and 1 and the small box lies on it in column 1, \<open>can_remove\<close>
  of the wide box is true.
\<close>

theorem can_remove_absent_or_covered:
  "Store_can_remove (Store_init 1) small_box = Inl TypeError
   \<and> Store_add (Store_init 2) wide_box 0 = Inr yard2_wide
   \<and> Store_add yard2_wide small_box 1 = Inr yard2_covered
   \<and> Store_can_remove yard2_covered wide_box = Inr True"
  by (simp add: store_defs example_defs yard2_wide_def yard2_covered_def)

section \<open>Relocation\<close>

text \<open>
  C5 (\<open>can_move\<close> and \<open>move\<close>). The claim: relocation is permitted iff \<open>can_remove(c)\<close> holds
  and the placement is possible in the yard as it is after the removal of \<open>c\<close>.
  The code tests the placement on the yard before the removal. With the wide box on
  columns 0 and 1 of a yard of width 3, \<open>can_move\<close> to position 1 is false, although
  \<open>can_add\<close> at position 1 is true once the box is removed. With the small box on column 2
  as well, \<open>can_move\<close> to position 1 is true and \<open>move\<close> fails in the assertion of \<open>add\<close>,
  after the removal.
\<close>

theorem can_move_tests_current_yard:
  "Store_add (Store_init 3) wide_box 0 = Inr yard3_wide
   \<and> Store_can_move yard3_wide wide_box 1 = Inr False
   \<and> Store_remove yard3_wide wide_box = Inr yard3_cleared
   \<and> Store_can_add yard3_cleared wide_box 1 = Inr True
   \<and> Store_add yard3_wide small_box 2 = Inr yard3_blocked
   \<and> Store_can_move yard3_blocked wide_box 1 = Inr True
   \<and> Store_move yard3_blocked wide_box 1 = Inl AssertionError"
  by (simp add: store_defs example_defs yard3_wide_def yard3_cleared_def yard3_blocked_def)

section \<open>Ordering of the removable containers\<close>

text \<open>
  C7 (\<open>sort_by_cost\<close>). The claim: the sellable containers come first, in descending order
  of value. The code returns the sellable containers in the order of the input list: at
  time 0 both boxes are sellable, the first is worth 1 and the second 2, and they come
  back in that order.
\<close>

theorem sort_by_cost_keeps_input_order:
  "valid_container (Strategy_init 1) cheap_box
   \<and> valid_container (Strategy_init 1) dear_box
   \<and> cvalue cheap_box < cvalue dear_box
   \<and> sort_by_cost (Strategy_init 1) [cheap_box, dear_box] = [cheap_box, dear_box]"
  by (simp add: sort_by_cost_def valid_container_def expired_container_def Strategy_init_def
      example_defs)

section \<open>The accessor of the cash\<close>

text \<open>
  C10 (\<open>Strategy.cash\<close>). The claim: the accessor returns the integer that \<open>Store.cash()\<close>
  returns. The code returns the bound method \<open>self._store.cash\<close> itself, which is not an
  integer.
\<close>

theorem Strategy_cash_is_bound_method:
  "Strategy_cash s = Bound_method_Store_cash (store s)
   \<and> Strategy_cash s \<noteq> Int_object (Store_cash (store s))"
  by (simp add: Strategy_cash_def)

section \<open>Placement\<close>

lemma set_range_py [simp]: "set (range_py a b) = {a..<b}"
  by (auto simp: range_py_def)

lemma distinct_range_py [simp]: "distinct (range_py a b)"
  by (simp add: range_py_def)

lemma height_column_in_range:
  assumes "length (storage s) = nat (width s)" "0 \<le> i" "i < width s"
  shows "Store_height_column s i = Inr (int (length (storage s ! nat i)))"
  using assms by (simp add: Store_height_column_def Store_valid_position_def py_index_def)

lemma can_add_loop_in_range:
  assumes "length (storage s) = nat (width s)" "\<forall>i\<in>set ks. 0 \<le> i \<and> i < width s"
  shows "can_add_loop s l ks = Inr (\<forall>i\<in>set ks. int (length (storage s ! nat i)) = l)"
  using assms(2)
proof (induction ks)
  case Nil
  then show ?case by simp
next
  case (Cons i ks)
  then show ?case
    by (auto simp: height_column_in_range [OF assms(1)])
qed

lemma can_add_loop_append:
  "can_add_loop s l (xs @ ys) =
     ebind (can_add_loop s l xs) (\<lambda>b. if b then can_add_loop s l ys else Inr False)"
proof (induction xs)
  case Nil
  show ?case by simp
next
  case (Cons i xs)
  show ?case
  proof (cases "Store_height_column s i")
    case (Inl e)
    then show ?thesis by simp
  next
    case (Inr h)
    with Cons show ?thesis by simp
  qed
qed

lemma range_py_split:
  assumes "a \<le> m" "m \<le> b"
  shows "range_py a b = range_py a m @ range_py m b"
proof (cases "m = b")
  case True
  then show ?thesis by (simp add: range_py_def)
next
  case False
  with assms have "m \<le> b - 1" by simp
  from upto_split1 [OF assms(1) this] show ?thesis by (simp add: range_py_def)
qed

lemma can_add_loop_beyond:
  assumes "width s < b"
  shows "can_add_loop s l (range_py (width s) b) = Inl AssertionError"
proof -
  from assms have "range_py (width s) b = width s # range_py (width s + 1) b"
    by (simp add: range_py_def upto_rec1)
  then show ?thesis
    by (simp add: Store_height_column_def Store_valid_position_def)
qed

text \<open>
  C4 (\<open>can_add\<close>), the claim as stated: \<open>can_place(c, p)\<close> returns false, rather than
  failing, when the footprint overruns the width. In the empty yard of width 2 the wide box
  at position 1 reaches column 2: \<open>height_column(2)\<close> fails its assertion.
\<close>

theorem can_add_overrun_fails:
  "Store_can_add (Store_init 2) wide_box 1 = Inl AssertionError"
  by (simp add: store_defs example_defs)

text \<open>
  C4, amended. In a yard with one column list per column, for a position \<open>p \<ge> 0\<close>:
  when \<open>p < width\<close> and the footprint ends within the width, \<open>can_add\<close> returns, without
  failing, whether every column of the footprint has the height of column \<open>p\<close>; when
  \<open>p < width\<close> and the footprint overruns the width, it returns false if a column from
  \<open>p\<close> up to the last one differs in height from column \<open>p\<close>, and fails with an assertion
  error otherwise; when \<open>p \<ge> width\<close> it fails with an assertion error. \<open>can_add\<close> has no
  assignment to the yard: it is a function of the yard to a verdict.
\<close>

theorem can_add_flat:
  assumes "length (storage s) = nat (width s)" and "0 \<le> p"
  shows "(p < width s \<and> p + csize c \<le> width s \<longrightarrow>
            Store_can_add s c p =
              Inr (\<forall>i\<in>{p..<p + csize c}. length (storage s ! nat i) = length (storage s ! nat p)))
         \<and> (p < width s \<and> width s < p + csize c \<longrightarrow>
            Store_can_add s c p =
              (if \<forall>i\<in>{p..<width s}. length (storage s ! nat i) = length (storage s ! nat p)
               then Inl AssertionError else Inr False))
         \<and> (width s \<le> p \<longrightarrow> Store_can_add s c p = Inl AssertionError)"
proof (intro conjI impI)
  assume b: "p < width s \<and> p + csize c \<le> width s"
  have r: "\<forall>i\<in>set (range_py p (p + csize c)). 0 \<le> i \<and> i < width s"
    using assms(2) b by auto
  show "Store_can_add s c p =
      Inr (\<forall>i\<in>{p..<p + csize c}. length (storage s ! nat i) = length (storage s ! nat p))"
    using b assms(2)
    by (simp add: Store_can_add_def Store_valid_position_def
        height_column_in_range [OF assms(1)] can_add_loop_in_range [OF assms(1) r])
next
  assume b: "p < width s \<and> width s < p + csize c"
  have r: "\<forall>i\<in>set (range_py p (width s)). 0 \<le> i \<and> i < width s"
    using assms(2) by auto
  define l where "l = int (length (storage s ! nat p))"
  have hp: "Store_height_column s p = Inr l"
    using b assms(2) by (simp add: l_def height_column_in_range [OF assms(1)])
  have sp: "range_py p (p + csize c) = range_py p (width s) @ range_py (width s) (p + csize c)"
    using b by (intro range_py_split) simp_all
  have 1: "can_add_loop s l (range_py p (width s)) =
      Inr (\<forall>i\<in>set (range_py p (width s)). int (length (storage s ! nat i)) = l)"
    by (rule can_add_loop_in_range [OF assms(1) r])
  have 2: "can_add_loop s l (range_py (width s) (p + csize c)) = Inl AssertionError"
    using b by (intro can_add_loop_beyond) simp
  have "Store_can_add s c p = can_add_loop s l (range_py p (p + csize c))"
    using b by (simp add: Store_can_add_def Store_valid_position_def hp)
  also have "\<dots> = ebind (can_add_loop s l (range_py p (width s)))
      (\<lambda>b. if b then can_add_loop s l (range_py (width s) (p + csize c)) else Inr False)"
    unfolding sp by (rule can_add_loop_append)
  also have "\<dots> = (if \<forall>i\<in>{p..<width s}. int (length (storage s ! nat i)) = l
       then Inl AssertionError else Inr False)"
    unfolding 1 2 by simp
  finally show "Store_can_add s c p =
      (if \<forall>i\<in>{p..<width s}. length (storage s ! nat i) = length (storage s ! nat p)
       then Inl AssertionError else Inr False)"
    by (simp add: l_def)
next
  assume "width s \<le> p"
  then show "Store_can_add s c p = Inl AssertionError"
    by (simp add: Store_can_add_def Store_valid_position_def)
qed

theorem can_add_flat_witness:
  "length (storage yard3_blocked) = nat (width yard3_blocked) \<and> (0::int) \<le> 1
   \<and> Store_can_add yard3_blocked wide_box 1 = Inr True
   \<and> Store_can_add yard3_wide wide_box 1 = Inr False
   \<and> Store_can_add yard3_wide wide_box 2 = Inl AssertionError
   \<and> Store_can_add yard3_wide wide_box 3 = Inl AssertionError"
  using can_add_flat [of yard3_blocked 1 wide_box] can_add_flat [of yard3_wide 1 wide_box]
    can_add_flat [of yard3_wide 2 wide_box] can_add_flat [of yard3_wide 3 wide_box]
  by (simp add: store_defs yard3_blocked_def yard3_wide_def example_defs)

section \<open>The surface under and over a placed container\<close>

lemma can_add_loop_True:
  "can_add_loop s l ks = Inr True \<Longrightarrow> \<forall>i\<in>set ks. Store_height_column s i = Inr l"
  by (induction ks) (auto simp: ebind_eq_Inr split: if_splits)





section \<open>Intake\<close>

lemma py_index_ok_iff:
  "(\<exists>j. py_index xs i = Inr j) \<longleftrightarrow> - int (length xs) \<le> i \<and> i < int (length xs)"
  by (auto simp: py_index_def)

lemma append_loop_succeeds:
  assumes "\<forall>i\<in>set ks. \<exists>j. py_index st i = Inr j"
  shows "\<exists>st'. append_loop st c ks = Inr st'"
  using assms
proof (induction ks arbitrary: st)
  case Nil
  then show ?case by simp
next
  case (Cons i ks)
  then obtain j where j: "py_index st i = Inr j" by auto
  have "\<forall>i\<in>set ks. \<exists>j'. py_index (st[j := st ! j @ [c]]) i = Inr j'"
    using Cons.prems by (simp add: py_index_ok_iff)
  from Cons.IH [OF this] j show ?case by simp
qed

lemma Store_add_succeeds:
  assumes "Store_can_add s c p = Inr True"
  shows "\<exists>st. Store_add s c p = Inr st"
proof -
  from assms obtain l where l: "Store_height_column s p = Inr l"
    and lp: "can_add_loop s l (range_py p (p + csize c)) = Inr True"
    by (auto simp: Store_can_add_def ebind_eq_Inr split: if_splits)
  from can_add_loop_True [OF lp]
  have "\<forall>i\<in>set (range_py p (p + csize c)). \<exists>j. py_index (storage s) i = Inr j"
    by (auto simp: Store_height_column_def ebind_eq_Inr split: if_splits)
  from append_loop_succeeds [OF this] obtain st' where
    "append_loop (storage s) c (range_py p (p + csize c)) = Inr st'" by blast
  with assms l show ?thesis by (simp add: Store_add_def)
qed

text \<open>
  C6 (intake), the claim as stated: the incoming container is placed exactly when it is
  not expired and its arrival window has not closed (\<open>clock < c.arrival.end\<close>). At time 0
  the late box, whose arrival window ends at 0, is placed all the same.
\<close>

theorem intake_ignores_arrival_window:
  "\<not> time (Strategy_init 2) < t_end (arrival late_box)
   \<and> intake (Strategy_init 2) late_box = Inr placed_late
   \<and> late_box \<in> set (containers (store placed_late))"
  by (simp add: strategy_defs store_defs example_defs late_box_def placed_late_def)

text \<open>
  C6, amended. Let \<open>pos\<close> be the second designated pile \<open>size\<^sup>2\<close> when the first pile
  \<open>size * (size - 1)\<close> is strictly higher, and the first pile otherwise. The intake step
  places the container at \<open>pos\<close> (the store adds it there, the log gets the \<open>ADD\<close> record
  and the clock advances by 1) exactly when \<open>can_add(c, pos)\<close> holds and
  \<open>clock < c.delivery.end\<close>; otherwise it changes nothing. The arrival window is not read.
\<close>

theorem intake_places_iff:
  assumes "Strategy_height_column s (csize c * (csize c - 1)) = Inr h1"
    and "Strategy_height_column s ((csize c)\<^sup>2) = Inr h2"
    and "pos = (if h1 > h2 then (csize c)\<^sup>2 else csize c * (csize c - 1))"
    and "Store_can_add (store s) c pos = Inr a"
  shows "\<exists>s'. intake s c = Inr s' \<and>
     (if a \<and> time s < t_end (delivery c)
      then \<exists>st. Store_add (store s) c pos = Inr st
             \<and> s' = \<lparr>store = st, logger = logger s @ [ADD (time s) (ident c) pos],
                      time = time s + 1\<rparr>
      else s' = s)"
proof -
  have lf: "least_full_pile s c = Inr pos"
    using assms(1,2,3) by (simp add: least_full_pile_def stack_position_def)
  show ?thesis
  proof (cases "a \<and> time s < t_end (delivery c)")
    case True
    with assms(4) have "Store_can_add (store s) c pos = Inr True" by simp
    from Store_add_succeeds [OF this] obtain st where st: "Store_add (store s) c pos = Inr st"
      by blast
    with True assms(4) lf show ?thesis
      by (simp add: intake_def expired_container_def add_container_def update_time_def
          Logger_add_def)
  next
    case False
    with assms(4) lf show ?thesis
      by (auto simp: intake_def expired_container_def)
  qed
qed

theorem intake_places_iff_witness:
  "Strategy_height_column (Strategy_init 2) (csize late_box * (csize late_box - 1)) = Inr 0
   \<and> Strategy_height_column (Strategy_init 2) ((csize late_box)\<^sup>2) = Inr 0
   \<and> Store_can_add (store (Strategy_init 2)) late_box 0 = Inr True
   \<and> intake (Strategy_init 2) late_box = Inr placed_late
   \<and> time (Strategy_init 2) < t_end (delivery late_box)"
  using intake_places_iff [of "Strategy_init 2" late_box 0 0 0 True]
  by (simp add: strategy_defs store_defs example_defs late_box_def placed_late_def)

section \<open>The score of a pile\<close>











section \<open>The verifier rebuilds the store of the strategy\<close>










lemma stored_add_cash [simp]: "stored (Store_add_cash s v) = stored s"
  by (simp add: stored_def Store_add_cash_def)






























section \<open>Expired containers\<close>










end
